theory Spec2Isabelle
  imports Complex_Main "HOL-Library.AList"
begin

section \<open>JavaScript values\<close>

text \<open>
  The server in \<^verbatim>\<open>simple-mcp-server.ts\<close> works on values that come out of
  \<^verbatim>\<open>JSON.parse\<close>: the body of the JSON-RPC request and the body of the upstream
  response. \<open>JUndefined\<close> stands for an absent property. A string holds the UTF-8 bytes
  of the JavaScript string. A number is the rational value of the double that the parser
  produced, or one of the two infinities, which the parser returns for a literal beyond
  the range of doubles such as \<^verbatim>\<open>1e999\<close>; the parser never returns NaN. An object is
  the list of its own properties in enumeration order; its keys are distinct.
\<close>

datatype json =
    JUndefined
  | JNull
  | JBool bool
  | JNum rat
  | JInfinity
  | JNegInfinity
  | JStr string
  | JArr "json list"
  | JObj "(string \<times> json) list"

text \<open>Truthiness, as used by \<^verbatim>\<open>||\<close>, \<^verbatim>\<open>&&\<close> and \<^verbatim>\<open>!\<close>.\<close>

fun truthy :: "json \<Rightarrow> bool" where
  "truthy JUndefined = False"
| "truthy JNull = False"
| "truthy (JBool b) = b"
| "truthy (JNum n) = (n \<noteq> 0)"
| "truthy JInfinity = True"
| "truthy JNegInfinity = True"
| "truthy (JStr s) = (s \<noteq> [])"
| "truthy (JArr xs) = True"
| "truthy (JObj fs) = True"

subsection \<open>Errors as values\<close>

text \<open>
  \<^verbatim>\<open>class WeatherAPIError extends Error\<close> with its public fields; the fourth field is the
  message handed to \<^verbatim>\<open>super\<close>.
\<close>

datatype WeatherAPIError =
  WeatherAPIError (status: int) (statusText: string) (body: json) (error_text: string)

text \<open>A validation issue of the schema library: its code and the path of the field.\<close>

datatype zod_issue = Issue (issue_code: string) (issue_path: "string list")

text \<open>
  Everything the program can throw: the upstream error, the validation error, the
  engine's own \<^verbatim>\<open>TypeError\<close> and \<^verbatim>\<open>SyntaxError\<close> (with the engine's message), and a
  rejected \<^verbatim>\<open>fetch\<close>.
\<close>

datatype js_error =
    Upstream WeatherAPIError
  | ZodError "zod_issue list"
  | TypeError string
  | SyntaxError string
  | FetchFailed string

datatype engine_fault =
    NotPrimitive
  | NullishReceiver string
  | NotCallable string
  | InvalidJSON

definition bindE :: "'e + 'a \<Rightarrow> ('a \<Rightarrow> 'e + 'b) \<Rightarrow> 'e + 'b" where
  "bindE x f = (case x of Inl e \<Rightarrow> Inl e | Inr v \<Rightarrow> f v)"

subsection \<open>The runtime the program runs on\<close>

text \<open>
  What the program takes from its environment: the network (\<^verbatim>\<open>fetch\<close>), the built-in
  JSON parser and serializer, the rendering of the numbers that are not safe integers,
  the engine's error messages, the message of the schema library's error, and the JSON
  Schema that \<^verbatim>\<open>zodToMCPSchema\<close> computed for each tool when the module was loaded.
\<close>

record upstream_request =
  url :: string
  searchParams :: "(string \<times> string) list"

record http_response =
  http_status :: int
  http_statusText :: string
  body_text :: string

datatype fetch_outcome = Rejected string | Responded http_response

definition ok :: "http_response \<Rightarrow> bool" where
  "ok r = (200 \<le> http_status r \<and> http_status r \<le> 299)"

record runtime =
  fetch :: "upstream_request \<Rightarrow> fetch_outcome"
  JSON_parse :: "string \<Rightarrow> json option"
  JSON_stringify :: "json \<Rightarrow> string"
  engine_toString :: "rat \<Rightarrow> string"
  engine_message :: "engine_fault \<Rightarrow> string"
  zod_message :: "zod_issue list \<Rightarrow> string"
  inputSchema :: "string \<Rightarrow> json"

subsection \<open>Conversion to strings\<close>

fun digits :: "nat \<Rightarrow> string" where
  "digits n =
     (if n < 10 then [''0123456789'' ! n]
      else digits (n div 10) @ [''0123456789'' ! (n mod 10)])"

declare digits.simps [simp del]

definition int_toString :: "int \<Rightarrow> string" where
  "int_toString i = (if i < 0 then ''-'' @ digits (nat (- i)) else digits (nat i))"

text \<open>
  \<^verbatim>\<open>Number.prototype.toString\<close> prints the shortest digits that read back as the same
  double. For an integer below \<open>2\<^sup>5\<^sup>3\<close> in magnitude these are its decimal digits; every
  other number (a fraction, or a larger integer such as \<open>2\<^sup>6\<^sup>0\<close>, which prints with
  trailing zeros) is rendered by the engine.
\<close>

definition Number_toString :: "runtime \<Rightarrow> rat \<Rightarrow> string" where
  "Number_toString P n =
     (if of_int \<lfloor>n\<rfloor> = n \<and> \<bar>n\<bar> < 2 ^ 53 then int_toString \<lfloor>n\<rfloor>
      else engine_toString P n)"

fun intercalate :: "string \<Rightarrow> string list \<Rightarrow> string" where
  "intercalate sep [] = []"
| "intercalate sep [s] = s"
| "intercalate sep (s # t # ss) = s @ sep @ intercalate sep (t # ss)"

text \<open>
  The abstract operation ToString (template literals, property keys). An array joins its
  elements with a comma, \<^verbatim>\<open>null\<close> and \<^verbatim>\<open>undefined\<close> elements giving the empty string. A
  parsed object prints as \<^verbatim>\<open>[object Object]\<close> through the inherited \<^verbatim>\<open>toString\<close>; an own
  property of that name is never callable and makes the conversion throw.
\<close>

fun ToString :: "runtime \<Rightarrow> json \<Rightarrow> js_error + string"
  and join_pieces :: "runtime \<Rightarrow> json list \<Rightarrow> js_error + string list" where
  "ToString P JUndefined = Inr ''undefined''"
| "ToString P JNull = Inr ''null''"
| "ToString P (JBool b) = Inr (if b then ''true'' else ''false'')"
| "ToString P (JNum n) = Inr (Number_toString P n)"
| "ToString P JInfinity = Inr ''Infinity''"
| "ToString P JNegInfinity = Inr ''-Infinity''"
| "ToString P (JStr s) = Inr s"
| "ToString P (JArr xs) = bindE (join_pieces P xs) (\<lambda>ps. Inr (intercalate '','' ps))"
| "ToString P (JObj fs) =
     (if map_of fs ''toString'' \<noteq> None then Inl (TypeError (engine_message P NotPrimitive))
      else Inr ''[object Object]'')"
| "join_pieces P [] = Inr []"
| "join_pieces P (x # xs) =
     bindE (if x = JUndefined \<or> x = JNull then Inr [] else ToString P x)
       (\<lambda>s. bindE (join_pieces P xs) (\<lambda>ps. Inr (s # ps)))"

subsection \<open>Property access\<close>

text \<open>
  Reading a property of a value that is neither \<^verbatim>\<open>null\<close> nor \<^verbatim>\<open>undefined\<close>. The program
  reads parsed values under fixed names only (\<^verbatim>\<open>location\<close>, \<^verbatim>\<open>name\<close>, \<^verbatim>\<open>arguments\<close>,
  \<^verbatim>\<open>length\<close>, ...), none of which a prototype supplies, so an object answers with its own
  property and an array or a string answers only for \<^verbatim>\<open>length\<close>. (The length of a string
  counts bytes here and UTF-16 units in the engine; the program reads it only on a path
  that throws right after.)
\<close>

definition own_prop :: "json \<Rightarrow> string \<Rightarrow> json" where
  "own_prop v k =
     (case v of
        JObj fs \<Rightarrow> (case map_of fs k of Some x \<Rightarrow> x | None \<Rightarrow> JUndefined)
      | JArr xs \<Rightarrow> (if k = ''length'' then JNum (of_nat (length xs)) else JUndefined)
      | JStr s \<Rightarrow> (if k = ''length'' then JNum (of_nat (length s)) else JUndefined)
      | _ \<Rightarrow> JUndefined)"

definition nullish :: "json \<Rightarrow> bool" where
  "nullish v = (v = JUndefined \<or> v = JNull)"

text \<open>\<^verbatim>\<open>v.k\<close>: a \<^verbatim>\<open>TypeError\<close> on \<^verbatim>\<open>null\<close> and \<^verbatim>\<open>undefined\<close>.\<close>

definition get_prop :: "runtime \<Rightarrow> json \<Rightarrow> string \<Rightarrow> js_error + json" where
  "get_prop P v k =
     (if nullish v then Inl (TypeError (engine_message P (NullishReceiver k)))
      else Inr (own_prop v k))"

text \<open>\<^verbatim>\<open>v?.k\<close>.\<close>

definition optional_get :: "json \<Rightarrow> string \<Rightarrow> json" where
  "optional_get v k = (if nullish v then JUndefined else own_prop v k)"

fun get_path :: "runtime \<Rightarrow> json \<Rightarrow> string list \<Rightarrow> js_error + json" where
  "get_path P v [] = Inr v"
| "get_path P v (k # ks) = bindE (get_prop P v k) (\<lambda>w. get_path P w ks)"

text \<open>
  \<^verbatim>\<open>v.toString()\<close> as a method call on a value that is not nullish: like ToString, but an
  own, uncallable \<^verbatim>\<open>toString\<close> is reported as not being a function.
\<close>

definition call_toString :: "runtime \<Rightarrow> json \<Rightarrow> js_error + string" where
  "call_toString P v =
     (case v of
        JObj fs \<Rightarrow>
          (if map_of fs ''toString'' \<noteq> None
           then Inl (TypeError (engine_message P (NotCallable ''toString'')))
           else Inr ''[object Object]'')
      | _ \<Rightarrow> ToString P v)"

text \<open>
  A template literal: literal pieces and substitutions, converted from left to right; the
  first substitution that throws ends it.
\<close>

datatype piece = Lit string | Sub "js_error + json"

fun template :: "runtime \<Rightarrow> piece list \<Rightarrow> js_error + string" where
  "template P [] = Inr []"
| "template P (Lit s # ps) = bindE (template P ps) (\<lambda>r. Inr (s @ r))"
| "template P (Sub x # ps) =
     bindE x (\<lambda>v. bindE (ToString P v) (\<lambda>s. bindE (template P ps) (\<lambda>r. Inr (s @ r))))"

text \<open>
  The own enumerable properties that an object spread \<^verbatim>\<open>{...v}\<close> copies: the properties of
  an object, the indexed elements of an array, the indexed characters of a string, and
  nothing for the other values.
\<close>

definition index_keys :: "nat \<Rightarrow> string list" where
  "index_keys n = map (\<lambda>i. int_toString (int i)) [0..<n]"

definition spread_entries :: "json \<Rightarrow> (string \<times> json) list" where
  "spread_entries v =
     (case v of
        JObj fs \<Rightarrow> fs
      | JArr xs \<Rightarrow> zip (index_keys (length xs)) xs
      | JStr s \<Rightarrow> zip (index_keys (length s)) (map (\<lambda>c. JStr [c]) s)
      | _ \<Rightarrow> [])"

text \<open>
  Writing the properties of a source, one after the other, into an object under
  construction. A source has each key once; \<open>clearjunk\<close> keeps, for a key listed twice, the
  entry that \<open>own_prop\<close> reads.
\<close>

definition assign_all :: "(string \<times> json) list \<Rightarrow> (string \<times> json) list \<Rightarrow> (string \<times> json) list" where
  "assign_all target source = fold (\<lambda>(k, v). AList.update k v) (AList.clearjunk source) target"

section \<open>Input validation schemas\<close>

text \<open>
  The schemas are \<^verbatim>\<open>z.object({...})\<close> values of the validation library. A schema is data
  here, read by \<open>zod_parse\<close>: a field is a string or a number with checks, possibly
  optional, possibly with a default. \<^verbatim>\<open>.describe(...)\<close> does not change validation.
\<close>

datatype zod_check = IsInt | Min rat | Max rat

datatype zod_type =
    ZString
  | ZNumber "zod_check list"
  | ZOptional zod_type
  | ZDefault zod_type json

type_synonym zod_object = "(string \<times> zod_type) list"

definition getCurrentWeatherSchema :: zod_object where
  "getCurrentWeatherSchema =
     [(''location'', ZString),
      (''language'', ZOptional ZString)]"

definition getWeatherForecastSchema :: zod_object where
  "getWeatherForecastSchema =
     [(''location'', ZString),
      (''days'', ZDefault (ZNumber [IsInt, Min 1, Max 3]) (JNum 3)),
      (''language'', ZOptional ZString)]"

definition searchLocationsSchema :: zod_object where
  "searchLocationsSchema = [(''query'', ZString)]"

text \<open>
  The checks of a number run in their order. \<^verbatim>\<open>int()\<close> ends them with its issue for a
  number that is not an integer, and asks for the safe range of an integer; an integer
  outside the safe range and a bound that fails add their issue and let the later checks
  run.
\<close>

definition MAX_SAFE_INTEGER :: rat where
  "MAX_SAFE_INTEGER = 2 ^ 53 - 1"

fun run_checks :: "string list \<Rightarrow> rat \<Rightarrow> zod_check list \<Rightarrow> zod_issue list" where
  "run_checks path n [] = []"
| "run_checks path n (IsInt # checks) =
     (if of_int \<lfloor>n\<rfloor> \<noteq> n then [Issue ''invalid_type'' path]
      else if MAX_SAFE_INTEGER < n then Issue ''too_big'' path # run_checks path n checks
      else if n < - MAX_SAFE_INTEGER then Issue ''too_small'' path # run_checks path n checks
      else run_checks path n checks)"
| "run_checks path n (Min lo # checks) =
     (if lo \<le> n then run_checks path n checks
      else Issue ''too_small'' path # run_checks path n checks)"
| "run_checks path n (Max hi # checks) =
     (if n \<le> hi then run_checks path n checks
      else Issue ''too_big'' path # run_checks path n checks)"

text \<open>
  A field: a string, a finite number that passes its checks, an optional field, a field
  with a default. The infinities are not accepted as numbers.
\<close>

fun parse_field :: "zod_type \<Rightarrow> string list \<Rightarrow> json \<Rightarrow> zod_issue list + json" where
  "parse_field ZString path v =
     (case v of JStr s \<Rightarrow> Inr v | _ \<Rightarrow> Inl [Issue ''invalid_type'' path])"
| "parse_field (ZNumber checks) path v =
     (case v of
        JNum n \<Rightarrow>
          (let issues = run_checks path n checks
           in if issues = [] then Inr v else Inl issues)
      | _ \<Rightarrow> Inl [Issue ''invalid_type'' path])"
| "parse_field (ZOptional t) path v =
     (if v = JUndefined then Inr JUndefined else parse_field t path v)"
| "parse_field (ZDefault t d) path v =
     (if v = JUndefined then Inr d else parse_field t path v)"

text \<open>
  The fields of an object schema are parsed in the order of the schema; the issues of all
  fields are collected; the output holds the declared fields that have a value.
\<close>

fun parse_fields :: "zod_object \<Rightarrow> json \<Rightarrow> zod_issue list \<times> (string \<times> json) list" where
  "parse_fields [] input = ([], [])"
| "parse_fields ((k, t) # shape) input =
     (let (issues, out) = parse_fields shape input
      in case parse_field t [k] (own_prop input k) of
           Inl es \<Rightarrow> (es @ issues, out)
         | Inr v \<Rightarrow> (issues, if v = JUndefined then out else (k, v) # out))"

text \<open>\<^verbatim>\<open>schema.parse(input)\<close>: throws the validation error, or returns the validated object.\<close>

definition zod_parse :: "zod_object \<Rightarrow> json \<Rightarrow> js_error + json" where
  "zod_parse shape input =
     (case input of
        JObj fs \<Rightarrow>
          (let (issues, out) = parse_fields shape input
           in if issues = [] then Inr (JObj out) else Inl (ZodError issues))
      | _ \<Rightarrow> Inl (ZodError [Issue ''invalid_type'' []]))"

section \<open>The upstream client\<close>

definition WEATHER_API_BASE :: string where
  "WEATHER_API_BASE = ''https://api.weatherapi.com/v1''"

text \<open>
  The constructor of \<^verbatim>\<open>WeatherAPIError\<close>: an empty message is falsy and replaced by the
  default text.
\<close>

definition new_WeatherAPIError :: "int \<Rightarrow> string \<Rightarrow> json \<Rightarrow> string \<Rightarrow> WeatherAPIError" where
  "new_WeatherAPIError st stText b message =
     WeatherAPIError st stText b
       (if message \<noteq> [] then message
        else ''WeatherAPI error ('' @ int_toString st @ ''): '' @ stText)"

text \<open>
  \<^verbatim>\<open>url.searchParams.set(key, value.toString())\<close> for every parameter that is neither
  \<^verbatim>\<open>undefined\<close> nor \<^verbatim>\<open>null\<close>, in the order of the parameter object.
\<close>

fun set_params ::
  "runtime \<Rightarrow> (string \<times> json) list \<Rightarrow> (string \<times> string) list \<Rightarrow> js_error + (string \<times> string) list" where
  "set_params P [] q = Inr q"
| "set_params P ((k, v) # ps) q =
     (if v \<noteq> JUndefined \<and> v \<noteq> JNull
      then bindE (call_toString P v) (\<lambda>s. set_params P ps (AList.update k s q))
      else set_params P ps q)"

text \<open>
  A call returns what it throws or returns, together with the requests it sent to the
  provider. \<^verbatim>\<open>response.json()\<close> parses the body and throws a \<^verbatim>\<open>SyntaxError\<close> when it is
  not JSON.
\<close>

type_synonym 'a io = "(js_error + 'a) \<times> upstream_request list"

definition callWeatherAPI :: "runtime \<Rightarrow> string \<Rightarrow> string \<Rightarrow> (string \<times> json) list \<Rightarrow> json io" where
  "callWeatherAPI P endpoint apiKey params =
     (case set_params P params [(''key'', apiKey)] of
        Inl e \<Rightarrow> (Inl e, [])
      | Inr q \<Rightarrow>
          (let request = \<lparr>url = WEATHER_API_BASE @ endpoint, searchParams = q\<rparr>
           in case fetch P request of
                Rejected m \<Rightarrow> (Inl (FetchFailed m), [request])
              | Responded response \<Rightarrow>
                  if \<not> ok response then
                    (let errorText = body_text response;
                         errorBody =
                           (case JSON_parse P errorText of
                              Some parsed \<Rightarrow> parsed
                            | None \<Rightarrow> JObj [(''message'', JStr errorText)])
                     in (Inl (Upstream (new_WeatherAPIError (http_status response)
                                (http_statusText response) errorBody
                                (''WeatherAPI request failed: '' @ errorText))),
                         [request]))
                  else
                    (case JSON_parse P (body_text response) of
                       Some parsed \<Rightarrow> (Inr parsed, [request])
                     | None \<Rightarrow> (Inl (SyntaxError (engine_message P InvalidJSON)), [request]))))"

definition getCurrentWeatherData :: "runtime \<Rightarrow> string \<Rightarrow> json \<Rightarrow> json io" where
  "getCurrentWeatherData P apiKey params =
     callWeatherAPI P ''/current.json'' apiKey
       [(''q'', own_prop params ''location''),
        (''lang'', own_prop params ''language'')]"

definition getWeatherForecastData :: "runtime \<Rightarrow> string \<Rightarrow> json \<Rightarrow> json io" where
  "getWeatherForecastData P apiKey params =
     callWeatherAPI P ''/forecast.json'' apiKey
       [(''q'', own_prop params ''location''),
        (''days'', own_prop params ''days''),
        (''lang'', own_prop params ''language'')]"

definition searchLocationsData :: "runtime \<Rightarrow> string \<Rightarrow> json \<Rightarrow> json io" where
  "searchLocationsData P apiKey params =
     callWeatherAPI P ''/search.json'' apiKey [(''q'', own_prop params ''query'')]"

section \<open>The tool implementations\<close>

definition degree :: string where
  "degree = [CHR 0xC2, CHR 0xB0]"

definition newline :: string where
  "newline = [CHR 0x0A]"

definition dquote :: string where
  "dquote = [CHR 0x22]"

definition text_entry :: "string \<Rightarrow> json" where
  "text_entry s = JObj [(''type'', JStr ''text''), (''text'', JStr s)]"

definition tool_result :: "runtime \<Rightarrow> string \<Rightarrow> json \<Rightarrow> json" where
  "tool_result P summary result =
     JObj [(''content'', JArr [text_entry summary, text_entry (JSON_stringify P result)])]"

text \<open>The summary line of \<^verbatim>\<open>getCurrentWeather\<close>.\<close>

definition current_summary :: "runtime \<Rightarrow> json \<Rightarrow> js_error + string" where
  "current_summary P result =
     bindE (get_prop P result ''location'') (\<lambda>location.
     bindE (get_prop P result ''current'') (\<lambda>current.
       template P
         [Lit ''Current weather in '', Sub (get_prop P location ''name''),
          Lit '', '', Sub (get_prop P location ''country''),
          Lit '': '', Sub (get_path P current [''condition'', ''text'']),
          Lit '', '', Sub (get_prop P current ''temp_c''),
          Lit (degree @ ''C (''), Sub (get_prop P current ''temp_f''),
          Lit (degree @ ''F). Feels like ''), Sub (get_prop P current ''feelslike_c''),
          Lit (degree @ ''C. Humidity: ''), Sub (get_prop P current ''humidity''),
          Lit ''%. Wind: '', Sub (get_prop P current ''wind_kph''),
          Lit '' km/h '', Sub (get_prop P current ''wind_dir''),
          Lit ''.'']))"

definition getCurrentWeather :: "runtime \<Rightarrow> string \<Rightarrow> json \<Rightarrow> json io" where
  "getCurrentWeather P apiKey input =
     (case zod_parse getCurrentWeatherSchema input of
        Inl e \<Rightarrow> (Inl e, [])
      | Inr validatedInput \<Rightarrow>
          (case getCurrentWeatherData P apiKey validatedInput of
             (Inl e, sent) \<Rightarrow> (Inl e, sent)
           | (Inr result, sent) \<Rightarrow>
               (bindE (current_summary P result) (\<lambda>summary. Inr (tool_result P summary result)),
                sent)))"

text \<open>
  \<^verbatim>\<open>xs.forEach(f)\<close> where \<open>f\<close> appends a line to the summary: only an array has the
  method.
\<close>

fun append_lines :: "(json \<Rightarrow> js_error + string) \<Rightarrow> json list \<Rightarrow> string \<Rightarrow> js_error + string" where
  "append_lines line [] summary = Inr summary"
| "append_lines line (x # xs) summary =
     bindE (line x) (\<lambda>l. append_lines line xs (summary @ l))"

definition forEach_line ::
  "runtime \<Rightarrow> json \<Rightarrow> (json \<Rightarrow> js_error + string) \<Rightarrow> string \<Rightarrow> js_error + string" where
  "forEach_line P v line summary =
     (case v of
        JArr xs \<Rightarrow> append_lines line xs summary
      | _ \<Rightarrow>
          Inl (TypeError (engine_message P
            (if nullish v then NullishReceiver ''forEach'' else NotCallable ''forEach''))))"

definition inputWithDefaults :: "json \<Rightarrow> json" where
  "inputWithDefaults input = JObj (assign_all [(''days'', JNum 3)] (spread_entries input))"

definition forecast_line :: "runtime \<Rightarrow> json \<Rightarrow> js_error + string" where
  "forecast_line P day =
     template P
       [Sub (get_prop P day ''date''),
        Lit '': '', Sub (get_path P day [''day'', ''condition'', ''text'']),
        Lit '', High: '', Sub (get_path P day [''day'', ''maxtemp_c'']),
        Lit (degree @ ''C, Low: ''), Sub (get_path P day [''day'', ''mintemp_c'']),
        Lit (degree @ ''C'' @ newline)]"

definition forecast_summary :: "runtime \<Rightarrow> json \<Rightarrow> json \<Rightarrow> js_error + string" where
  "forecast_summary P validatedInput result =
     bindE (get_prop P result ''location'') (\<lambda>location.
     bindE (get_path P result [''forecast'', ''forecastday'']) (\<lambda>forecast.
     bindE (template P
              [Sub (Inr (own_prop validatedInput ''days'')),
               Lit ''-day forecast for '', Sub (get_prop P location ''name''),
               Lit '', '', Sub (get_prop P location ''country''),
               Lit ('':'' @ newline)]) (\<lambda>summary.
       forEach_line P forecast (forecast_line P) summary)))"

definition getWeatherForecast :: "runtime \<Rightarrow> string \<Rightarrow> json \<Rightarrow> json io" where
  "getWeatherForecast P apiKey input =
     (case zod_parse getWeatherForecastSchema (inputWithDefaults input) of
        Inl e \<Rightarrow> (Inl e, [])
      | Inr validatedInput \<Rightarrow>
          (case getWeatherForecastData P apiKey validatedInput of
             (Inl e, sent) \<Rightarrow> (Inl e, sent)
           | (Inr result, sent) \<Rightarrow>
               (bindE (forecast_summary P validatedInput result)
                  (\<lambda>summary. Inr (tool_result P summary result)),
                sent)))"

definition location_line :: "runtime \<Rightarrow> json \<Rightarrow> js_error + string" where
  "location_line P location =
     template P
       [Sub (get_prop P location ''name''),
        Lit '', '', Sub (get_prop P location ''region''),
        Lit '', '', Sub (get_prop P location ''country''),
        Lit '' ('', Sub (get_prop P location ''lat''),
        Lit '', '', Sub (get_prop P location ''lon''),
        Lit ('')'' @ newline)]"

definition search_summary :: "runtime \<Rightarrow> json \<Rightarrow> json \<Rightarrow> js_error + string" where
  "search_summary P validatedInput result =
     bindE (template P
              [Lit ''Found '', Sub (get_prop P result ''length''),
               Lit ('' locations matching '' @ dquote),
               Sub (Inr (own_prop validatedInput ''query'')),
               Lit (dquote @ '':'' @ newline)]) (\<lambda>summary.
       forEach_line P result (location_line P) summary)"

definition searchLocations :: "runtime \<Rightarrow> string \<Rightarrow> json \<Rightarrow> json io" where
  "searchLocations P apiKey input =
     (case zod_parse searchLocationsSchema input of
        Inl e \<Rightarrow> (Inl e, [])
      | Inr validatedInput \<Rightarrow>
          (case searchLocationsData P apiKey validatedInput of
             (Inl e, sent) \<Rightarrow> (Inl e, sent)
           | (Inr result, sent) \<Rightarrow>
               (bindE (search_summary P validatedInput result)
                  (\<lambda>summary. Inr (tool_result P summary result)),
                sent)))"

section \<open>The MCP protocol\<close>

text \<open>
  The interfaces \<^verbatim>\<open>MCPRequest\<close> and \<^verbatim>\<open>MCPResponse\<close>. The method is a string, as the
  interface declares it; the id and the parameters are whatever the request body held
  (\<open>JUndefined\<close> when absent). In a response, \<open>result\<close> and \<open>error\<close> are optional fields.
\<close>

record MCPRequest =
  req_jsonrpc :: string
  req_id :: json
  req_method :: string
  req_params :: json

record JsonRpcError =
  code :: int
  message :: string
  data :: "json option"

record MCPResponse =
  jsonrpc :: string
  res_id :: json
  result :: "json option"
  error :: "JsonRpcError option"

definition PARSE_ERROR :: int where "PARSE_ERROR = - 32700"
definition INVALID_REQUEST :: int where "INVALID_REQUEST = - 32600"
definition METHOD_NOT_FOUND :: int where "METHOD_NOT_FOUND = - 32601"
definition INVALID_PARAMS :: int where "INVALID_PARAMS = - 32602"
definition INTERNAL_ERROR :: int where "INTERNAL_ERROR = - 32603"
definition UNAUTHORIZED :: int where "UNAUTHORIZED = - 32001"
definition FORBIDDEN :: int where "FORBIDDEN = - 32002"
definition NOT_FOUND :: int where "NOT_FOUND = - 32003"
definition RATE_LIMITED :: int where "RATE_LIMITED = - 32004"

text \<open>
  \<^verbatim>\<open>id: id || 'unknown'\<close> and \<^verbatim>\<open>...(data && { data })\<close>: a falsy id is replaced, a falsy
  \<open>data\<close> is left out.
\<close>

definition createErrorResponse :: "json \<Rightarrow> int \<Rightarrow> string \<Rightarrow> json \<Rightarrow> MCPResponse" where
  "createErrorResponse i c m d =
     \<lparr>jsonrpc = ''2.0'',
      res_id = (if truthy i then i else JStr ''unknown''),
      result = None,
      error = Some \<lparr>code = c, message = m, data = (if truthy d then Some d else None)\<rparr>\<rparr>"

definition mapWeatherAPIErrorToJSONRPC :: "WeatherAPIError \<Rightarrow> JsonRpcError" where
  "mapWeatherAPIErrorToJSONRPC e =
     (if status e = 400 then
        \<lparr>code = INVALID_PARAMS,
         message = ''Invalid request parameters'',
         data = Some (JObj
           [(''status'', JNum (of_int (status e))),
            (''detail'',
               (let detail = optional_get (optional_get (body e) ''error'') ''message''
                in if truthy detail then detail else JStr (error_text e)))])\<rparr>
      else if status e = 401 then
        \<lparr>code = UNAUTHORIZED,
         message = ''Invalid WeatherAPI.com API key'',
         data = Some (JObj
           [(''status'', JNum (of_int (status e))),
            (''detail'', JStr ''Check your API key and make sure it's active'')])\<rparr>
      else if status e = 403 then
        \<lparr>code = FORBIDDEN,
         message = ''WeatherAPI.com access denied'',
         data = Some (JObj
           [(''status'', JNum (of_int (status e))),
            (''detail'',
               JStr ''Your API key may have exceeded its quota or lacks required permissions'')])\<rparr>
      else if status e = 404 then
        \<lparr>code = NOT_FOUND,
         message = ''Location not found'',
         data = Some (JObj
           [(''status'', JNum (of_int (status e))),
            (''detail'', JStr ''The specified location could not be found'')])\<rparr>
      else if status e = 429 then
        \<lparr>code = RATE_LIMITED,
         message = ''Rate limit exceeded'',
         data = Some (JObj
           [(''status'', JNum (of_int (status e))),
            (''detail'',
               JStr ''Too many requests to WeatherAPI.com. Please wait before trying again.'')])\<rparr>
      else
        \<lparr>code = INTERNAL_ERROR,
         message = ''WeatherAPI.com service error'',
         data = Some (JObj
           [(''status'', JNum (of_int (status e))),
            (''detail'', JStr (error_text e))])\<rparr>)"

definition serverInfo :: json where
  "serverInfo = JObj [(''name'', JStr ''weatherapi-mcp''), (''version'', JStr ''1.0.0'')]"

definition tools :: "runtime \<Rightarrow> json" where
  "tools P = JArr
     [JObj [(''name'', JStr ''getCurrentWeather''),
            (''title'', JStr ''Get current weather conditions''),
            (''description'',
               JStr ''Get real-time weather for any location - like checking if it's raining right now in Paris''),
            (''inputSchema'', inputSchema P ''getCurrentWeather'')],
      JObj [(''name'', JStr ''getWeatherForecast''),
            (''title'', JStr ''Get weather forecast''),
            (''description'',
               JStr ''Get weather predictions for the next 1-3 days - perfect for planning weekend trips''),
            (''inputSchema'', inputSchema P ''getWeatherForecast'')],
      JObj [(''name'', JStr ''searchLocations''),
            (''title'', JStr ''Search for locations''),
            (''description'',
               JStr (''Find the right location name - useful when you're not sure how to spell ''
                     @ dquote @ ''Albuquerque'' @ dquote)),
            (''inputSchema'', inputSchema P ''searchLocations'')]]"

subsection \<open>The tool table\<close>

type_synonym handler = "runtime \<Rightarrow> string \<Rightarrow> json \<Rightarrow> json io"

definition allTools :: "(string \<times> handler) list" where
  "allTools =
     [(''getCurrentWeather'', getCurrentWeather),
      (''getWeatherForecast'', getWeatherForecast),
      (''searchLocations'', searchLocations)]"

text \<open>
  \<^verbatim>\<open>allTools\<close> is an object literal, so \<^verbatim>\<open>allTools[name]\<close> also finds what the literal
  inherits from \<^verbatim>\<open>Object.prototype\<close>. These are the names of that prototype.
\<close>

definition Object_prototype :: "string list" where
  "Object_prototype =
     [''constructor'', ''toString'', ''toLocaleString'', ''valueOf'', ''hasOwnProperty'',
      ''isPrototypeOf'', ''propertyIsEnumerable'', ''__proto__'', ''__defineGetter__'',
      ''__defineSetter__'', ''__lookupGetter__'', ''__lookupSetter__'']"

datatype member = Tool handler | Inherited string

text \<open>\<^verbatim>\<open>allTools[key]\<close>; \<open>None\<close> is \<^verbatim>\<open>undefined\<close>, every member found is truthy.\<close>

definition lookup_allTools :: "string \<Rightarrow> member option" where
  "lookup_allTools key =
     (case map_of allTools key of
        Some h \<Rightarrow> Some (Tool h)
      | None \<Rightarrow> if key \<in> set Object_prototype then Some (Inherited key) else None)"

text \<open>
  \<^verbatim>\<open>tool(apiKey, args)\<close> on an inherited member, with a non-empty \<open>apiKey\<close> and \<^verbatim>\<open>this\<close>
  undefined: \<^verbatim>\<open>Object(apiKey)\<close> boxes the key (the box serializes as the string),
  \<^verbatim>\<open>toString\<close> names the undefined receiver, \<^verbatim>\<open>isPrototypeOf\<close> answers \<^verbatim>\<open>false\<close> for a
  primitive argument, \<^verbatim>\<open>__proto__\<close> yields the prototype object, which is not callable,
  and the other methods reject the undefined receiver.
\<close>

definition call_inherited :: "runtime \<Rightarrow> string \<Rightarrow> string \<Rightarrow> js_error + json" where
  "call_inherited P key apiKey =
     (if key = ''constructor'' then Inr (JStr apiKey)
      else if key = ''toString'' then Inr (JStr ''[object Undefined]'')
      else if key = ''isPrototypeOf'' then Inr (JBool False)
      else if key = ''__proto__'' then Inl (TypeError (engine_message P (NotCallable ''tool'')))
      else Inl (TypeError (engine_message P (NullishReceiver key))))"

definition call_member :: "runtime \<Rightarrow> member \<Rightarrow> string \<Rightarrow> json \<Rightarrow> json io" where
  "call_member P tool apiKey args =
     (case tool of
        Tool h \<Rightarrow> h P apiKey args
      | Inherited key \<Rightarrow> (call_inherited P key apiKey, []))"

subsection \<open>The dispatcher\<close>

text \<open>\<^verbatim>\<open>error.message\<close> of a thrown value.\<close>

definition error_message :: "runtime \<Rightarrow> js_error \<Rightarrow> string" where
  "error_message P e =
     (case e of
        Upstream w \<Rightarrow> error_text w
      | ZodError issues \<Rightarrow> zod_message P issues
      | TypeError m \<Rightarrow> m
      | SyntaxError m \<Rightarrow> m
      | FetchFailed m \<Rightarrow> m)"

text \<open>
  \<^verbatim>\<open>error.errors\<close>. The program needs version 4 of the validation library
  (\<^verbatim>\<open>z.toJSONSchema\<close>), whose error keeps its issues under \<^verbatim>\<open>issues\<close> and has no property
  \<^verbatim>\<open>errors\<close>; no other error has one either.
\<close>

definition error_errors :: "js_error \<Rightarrow> json" where
  "error_errors e = JUndefined"

text \<open>
  The \<^verbatim>\<open>catch\<close> around the tool call: \<^verbatim>\<open>instanceof WeatherAPIError\<close>, then the error named
  \<^verbatim>\<open>ZodError\<close> (the validation library's), then every other error.
\<close>

definition tool_call_failed :: "runtime \<Rightarrow> MCPRequest \<Rightarrow> js_error \<Rightarrow> MCPResponse" where
  "tool_call_failed P request e =
     (case e of
        Upstream w \<Rightarrow>
          (let m = mapWeatherAPIErrorToJSONRPC w
           in createErrorResponse (req_id request) (code m) (message m)
                (case data m of Some d \<Rightarrow> d | None \<Rightarrow> JUndefined))
      | ZodError issues \<Rightarrow>
          createErrorResponse (req_id request) INVALID_PARAMS ''Invalid input parameters''
            (JObj [(''validationErrors'', error_errors e),
                   (''hint'', JStr ''Check the tool's input schema for required parameters'')])
      | _ \<Rightarrow>
          createErrorResponse (req_id request) INTERNAL_ERROR ''Internal server error''
            (JObj [(''detail'', JStr (error_message P e))]))"

text \<open>
  The \<^verbatim>\<open>tools/call\<close> case. What it throws itself (the conversion of \<open>name\<close> to a property
  key) reaches the outer \<^verbatim>\<open>catch\<close>. The message of an unknown tool converts \<open>name\<close> a
  second time, with the same outcome.
\<close>

definition api_key_required :: "MCPRequest \<Rightarrow> MCPResponse" where
  "api_key_required request =
     createErrorResponse (req_id request) UNAUTHORIZED ''WeatherAPI.com API key required''
       (JObj
          [(''hint'',
              JStr (''Include your API key in the Authorization header: ''
                    @ dquote @ ''Bearer your-api-key'' @ dquote)),
           (''signup'', JStr ''Get a free API key at https://www.weatherapi.com/signup.aspx'')])"

text \<open>\<^verbatim>\<open>!apiKey\<close> holds for an absent key and for the empty string.\<close>

definition no_key :: "string option \<Rightarrow> bool" where
  "no_key apiKey = (case apiKey of None \<Rightarrow> True | Some k \<Rightarrow> k = [])"

text \<open>\<^verbatim>\<open>request.params || {}\<close>, from which \<open>name\<close> and \<open>arguments\<close> are read.\<close>

definition call_params :: "MCPRequest \<Rightarrow> json" where
  "call_params request = (if truthy (req_params request) then req_params request else JObj [])"

definition tools_call :: "runtime \<Rightarrow> MCPRequest \<Rightarrow> string option \<Rightarrow> MCPResponse io" where
  "tools_call P request apiKey =
     (let name = own_prop (call_params request) ''name'';
          args = own_prop (call_params request) ''arguments''
      in case ToString P name of
           Inl e \<Rightarrow> (Inl e, [])
         | Inr key \<Rightarrow>
             (case lookup_allTools key of
                None \<Rightarrow>
                  (Inr (createErrorResponse (req_id request) METHOD_NOT_FOUND
                          (''Tool '' @ dquote @ key @ dquote @ '' not found'')
                          (JObj [(''availableTools'', JArr (map (\<lambda>(k, h). JStr k) allTools))])),
                   [])
              | Some tool \<Rightarrow>
                  if no_key apiKey then (Inr (api_key_required request), [])
                  else
                    (case call_member P tool (case apiKey of Some k \<Rightarrow> k | None \<Rightarrow> []) args of
                       (Inr r, sent) \<Rightarrow>
                         (Inr \<lparr>jsonrpc = ''2.0'', res_id = req_id request,
                               result = Some r, error = None\<rparr>, sent)
                     | (Inl e, sent) \<Rightarrow> (Inr (tool_call_failed P request e), sent))))"

definition dispatch :: "runtime \<Rightarrow> MCPRequest \<Rightarrow> string option \<Rightarrow> MCPResponse io" where
  "dispatch P request apiKey =
     (if req_method request = ''initialize'' then
        (Inr \<lparr>jsonrpc = ''2.0'', res_id = req_id request,
              result = Some (JObj
                [(''protocolVersion'', JStr ''2024-11-05''),
                 (''capabilities'',
                    JObj [(''tools'', JObj [(''listChanged'', JBool True)])]),
                 (''serverInfo'', serverInfo)]),
              error = None\<rparr>, [])
      else if req_method request = ''tools/list'' then
        (Inr \<lparr>jsonrpc = ''2.0'', res_id = req_id request,
              result = Some (JObj [(''tools'', tools P)]),
              error = None\<rparr>, [])
      else if req_method request = ''tools/call'' then tools_call P request apiKey
      else
        (Inr (createErrorResponse (req_id request) METHOD_NOT_FOUND
                (''Method '' @ dquote @ req_method request @ dquote @ '' not found'')
                (JObj [(''availableMethods'',
                         JArr [JStr ''initialize'', JStr ''tools/list'', JStr ''tools/call''])])),
         []))"

text \<open>
  \<^verbatim>\<open>handleMCPRequest\<close>: the \<^verbatim>\<open>switch\<close> inside the outer \<^verbatim>\<open>try\<close>, whose \<^verbatim>\<open>catch\<close> turns a
  thrown error into a response. \<open>Inl\<close> would be a rejected promise.
\<close>

definition handleMCPRequest :: "runtime \<Rightarrow> MCPRequest \<Rightarrow> string option \<Rightarrow> MCPResponse io" where
  "handleMCPRequest P request apiKey =
     (case dispatch P request apiKey of
        (Inr response, sent) \<Rightarrow> (Inr response, sent)
      | (Inl e, sent) \<Rightarrow>
          (Inr (createErrorResponse (req_id request) INTERNAL_ERROR ''Request processing failed''
                  (JObj [(''detail'', JStr (error_message P e))])),
           sent))"

subsection \<open>Validation by tool\<close>

text \<open>The validation that the handler of each tool starts with, by the name of the tool.\<close>

definition validate_arguments :: "string \<Rightarrow> json \<Rightarrow> js_error + json" where
  "validate_arguments key args =
     (if key = ''getWeatherForecast''
      then zod_parse getWeatherForecastSchema (inputWithDefaults args)
      else if key = ''searchLocations'' then zod_parse searchLocationsSchema args
      else zod_parse getCurrentWeatherSchema args)"

section \<open>Concrete runs\<close>

text \<open>
  A runtime whose provider answers every request with the given response and whose parser
  reads every body as the given value.
\<close>

definition canned :: "http_response \<Rightarrow> json option \<Rightarrow> runtime" where
  "canned response parsed =
     \<lparr>fetch = (\<lambda>request. Responded response),
      JSON_parse = (\<lambda>text. parsed),
      JSON_stringify = (\<lambda>v. ''{}''),
      engine_toString = (\<lambda>n. ''0.5''),
      engine_message = (\<lambda>fault. ''fault''),
      zod_message = (\<lambda>issues. ''invalid''),
      inputSchema = (\<lambda>name. JObj [])\<rparr>"

text \<open>The upstream payload of the London scenario.\<close>

definition london_payload :: json where
  "london_payload = JObj
     [(''location'', JObj [(''name'', JStr ''London''), (''country'', JStr ''UK'')]),
      (''current'', JObj
         [(''condition'', JObj [(''text'', JStr ''Sunny'')]),
          (''temp_c'', JNum 20), (''temp_f'', JNum 68), (''feelslike_c'', JNum 19),
          (''humidity'', JNum 50), (''wind_kph'', JNum 10), (''wind_dir'', JStr ''N'')])]"

definition london_runtime :: runtime where
  "london_runtime =
     canned \<lparr>http_status = 200, http_statusText = ''OK'', body_text = ''{}''\<rparr>
       (Some london_payload)"

text \<open>A provider that answers 500 with a body that is not JSON.\<close>

definition failing_runtime :: runtime where
  "failing_runtime =
     canned \<lparr>http_status = 500, http_statusText = ''Internal Server Error'',
             body_text = ''oops''\<rparr> None"

text \<open>A \<^verbatim>\<open>tools/call\<close> request with the given id, tool name and arguments.\<close>

definition call_request :: "json \<Rightarrow> json \<Rightarrow> json \<Rightarrow> MCPRequest" where
  "call_request i name args =
     \<lparr>req_jsonrpc = ''2.0'', req_id = i, req_method = ''tools/call'',
      req_params = JObj [(''name'', name), (''arguments'', args)]\<rparr>"

section \<open>Properties\<close>

subsection \<open>Auxiliary facts\<close>

text \<open>The dispatcher on a \<^verbatim>\<open>tools/call\<close> request, and on a name that the tool table holds.\<close>

lemma handle_tools_call:
  "req_method request = ''tools/call'' \<Longrightarrow>
   handleMCPRequest P request apiKey =
     (case tools_call P request apiKey of
        (Inr response, sent) \<Rightarrow> (Inr response, sent)
      | (Inl e, sent) \<Rightarrow>
          (Inr (createErrorResponse (req_id request) INTERNAL_ERROR ''Request processing failed''
                  (JObj [(''detail'', JStr (error_message P e))])),
           sent))"
  by (simp add: handleMCPRequest_def dispatch_def)

lemma tools_call_registered:
  assumes "ToString P (own_prop (call_params request) ''name'') = Inr key"
    and "map_of allTools key = Some h"
  shows "tools_call P request apiKey =
     (if no_key apiKey then (Inr (api_key_required request), [])
      else (case h P (case apiKey of Some k \<Rightarrow> k | None \<Rightarrow> [])
                    (own_prop (call_params request) ''arguments'') of
              (Inr r, sent) \<Rightarrow>
                (Inr \<lparr>jsonrpc = ''2.0'', res_id = req_id request, result = Some r, error = None\<rparr>,
                 sent)
            | (Inl e, sent) \<Rightarrow> (Inr (tool_call_failed P request e), sent)))"
  using assms by (simp add: tools_call_def lookup_allTools_def call_member_def Let_def)

lemma registered_handler:
  "key \<in> fst ` set allTools \<Longrightarrow> \<exists>h. (key, h) \<in> set allTools \<and> map_of allTools key = Some h"
  by (auto simp: allTools_def)




text \<open>
  Validation: the only error it throws is the validation error; an issue of one field
  fails the whole object; a field that parses to a value is in the output.
\<close>

lemma zod_parse_throws_ZodError:
  "zod_parse shape input = Inl e \<Longrightarrow> \<exists>issues. e = ZodError issues"
  by (auto simp: zod_parse_def split: json.splits prod.splits if_splits)

lemma parse_field_issues_nonempty:
  "parse_field t path v = Inl es \<Longrightarrow> es \<noteq> []"
  by (induction t path v rule: parse_field.induct)
    (auto simp: Let_def split: json.splits if_splits)

lemma parse_fields_collects:
  "(k, t) \<in> set shape \<Longrightarrow> parse_field t [k] (own_prop input k) = Inl es \<Longrightarrow>
   fst (parse_fields shape input) \<noteq> []"
proof (induction shape)
  case Nil
  then show ?case by simp
next
  case (Cons kt shape)
  obtain k' t' where kt: "kt = (k', t')" by (cases kt)
  show ?case
  proof (cases "(k, t) = (k', t')")
    case True
    with Cons.prems(2) parse_field_issues_nonempty [OF Cons.prems(2)] show ?thesis
      by (simp add: kt split: prod.splits)
  next
    case False
    with Cons.prems kt have "fst (parse_fields shape input) \<noteq> []"
      using Cons.IH by auto
    then show ?thesis
      by (auto simp: kt split: prod.splits sum.splits)
  qed
qed


lemma zod_parse_rejects:
  assumes "input = JObj fs" and "(k, t) \<in> set shape"
    and "parse_field t [k] (own_prop input k) = Inl es"
  shows "\<exists>issues. zod_parse shape input = Inl (ZodError issues)"
  using parse_fields_collects [OF assms(2,3)] assms(1)
  by (auto simp: zod_parse_def split: prod.splits)




lemma handler_validates:
  assumes "(key, h) \<in> set allTools" and "validate_arguments key args = Inl e"
  shows "h P k args = (Inl e, [])"
proof -
  from assms(1) consider
      "key = ''getCurrentWeather''" "h = getCurrentWeather"
    | "key = ''getWeatherForecast''" "h = getWeatherForecast"
    | "key = ''searchLocations''" "h = searchLocations"
    by (auto simp: allTools_def)
  then show ?thesis
  proof cases
    case 1
    with assms(2) have "zod_parse getCurrentWeatherSchema args = Inl e"
      by (simp add: validate_arguments_def)
    with 1 show ?thesis by (simp add: getCurrentWeather_def)
  next
    case 2
    with assms(2) have "zod_parse getWeatherForecastSchema (inputWithDefaults args) = Inl e"
      by (simp add: validate_arguments_def)
    with 2 show ?thesis by (simp add: getWeatherForecast_def)
  next
    case 3
    with assms(2) have "zod_parse searchLocationsSchema args = Inl e"
      by (simp add: validate_arguments_def)
    with 3 show ?thesis by (simp add: searchLocations_def)
  qed
qed

lemma missing_arguments_rejected:
  "\<exists>issues. validate_arguments key JUndefined = Inl (ZodError issues)"
proof -
  have "\<exists>fs. inputWithDefaults JUndefined = JObj fs"
    by (simp add: inputWithDefaults_def)
  then obtain fs where fs: "inputWithDefaults JUndefined = JObj fs" ..
  have "own_prop (inputWithDefaults JUndefined) ''location'' = JUndefined"
    by (simp add: inputWithDefaults_def own_prop_def assign_all_def spread_entries_def)
  then have "parse_field ZString [''location''] (own_prop (inputWithDefaults JUndefined) ''location'')
      = Inl [Issue ''invalid_type'' [''location'']]"
    by simp
  then have forecast: "\<exists>issues. zod_parse getWeatherForecastSchema (inputWithDefaults JUndefined) =
      Inl (ZodError issues)"
    by (rule zod_parse_rejects [OF fs, rotated]) (simp add: getWeatherForecastSchema_def)
  have other: "zod_parse shape JUndefined = Inl (ZodError [Issue ''invalid_type'' []])" for shape
    by (simp add: zod_parse_def)
  show ?thesis
  proof (cases "key = ''getWeatherForecast''")
    case True
    with forecast show ?thesis by (simp add: validate_arguments_def)
  next
    case False
    with other show ?thesis by (simp add: validate_arguments_def)
  qed
qed

lemma tool_call_validation_failure:
  assumes "req_method request = ''tools/call''"
    and "ToString P (own_prop (call_params request) ''name'') = Inr key"
    and "key \<in> fst ` set allTools"
    and "\<not> no_key apiKey"
    and "validate_arguments key (own_prop (call_params request) ''arguments'') = Inl (ZodError issues)"
  shows "handleMCPRequest P request apiKey =
     (Inr \<lparr>jsonrpc = ''2.0'',
            res_id = (if truthy (req_id request) then req_id request else JStr ''unknown''),
            result = None,
            error = Some
              \<lparr>code = - 32602,
               message = ''Invalid input parameters'',
               data = Some (JObj
                 [(''validationErrors'', JUndefined),
                  (''hint'', JStr ''Check the tool's input schema for required parameters'')])\<rparr>\<rparr>,
      [])"
proof -
  from assms(3) obtain h where h: "(key, h) \<in> set allTools" "map_of allTools key = Some h"
    using registered_handler by blast
  have "h P (case apiKey of Some k \<Rightarrow> k | None \<Rightarrow> [])
          (own_prop (call_params request) ''arguments'') = (Inl (ZodError issues), [])"
    using h(1) assms(5) by (rule handler_validates)
  with assms(2,4) h(2) have "tools_call P request apiKey =
      (Inr (tool_call_failed P request (ZodError issues)), [])"
    by (simp add: tools_call_registered)
  with assms(1) show ?thesis
    by (simp add: handle_tools_call tool_call_failed_def createErrorResponse_def
        INVALID_PARAMS_def error_errors_def)
qed


lemma dispatch_id:
  "dispatch P request apiKey = (Inr r, sent) \<Longrightarrow>
   res_id r =
     (if error r = None then req_id request
      else if truthy (req_id request) then req_id request else JStr ''unknown'')"
  by (auto simp: dispatch_def tools_call_def tool_call_failed_def createErrorResponse_def
      api_key_required_def Let_def
      split: if_splits sum.splits option.splits prod.splits js_error.splits)

lemma london_summary:
  "current_summary P london_payload =
     Inr (''Current weather in London, UK: Sunny, 20'' @ [CHR 0xC2, CHR 0xB0] @ ''C (68''
          @ [CHR 0xC2, CHR 0xB0] @ ''F). Feels like 19'' @ [CHR 0xC2, CHR 0xB0]
          @ ''C. Humidity: 50%. Wind: 10 km/h N.'')"
  by (simp add: current_summary_def london_payload_def get_prop_def nullish_def own_prop_def
      bindE_def Number_toString_def int_toString_def digits.simps degree_def)

lemma london_validated:
  "zod_parse getCurrentWeatherSchema (JObj [(''location'', JStr ''London'')]) =
     Inr (JObj [(''location'', JStr ''London'')])"
  by (simp add: zod_parse_def getCurrentWeatherSchema_def own_prop_def)

subsection \<open>Missing credential\<close>

text \<open>
  C1, as amended. A \<^verbatim>\<open>tools/call\<close> request that names a tool of the table and comes with
  no credential (absent, or the empty string) is answered with the error -32001, whose
  data holds the hint on the \<^verbatim>\<open>Authorization\<close> header; the answer does not depend on the
  arguments and no request is sent upstream, so neither validation nor the handler has
  run.
\<close>

theorem missing_key_known_tool:
  assumes "req_method request = ''tools/call''"
    and "ToString P (own_prop (call_params request) ''name'') = Inr key"
    and "key \<in> fst ` set allTools"
    and "no_key apiKey"
  shows "handleMCPRequest P request apiKey =
     (Inr \<lparr>jsonrpc = ''2.0'',
            res_id = (if truthy (req_id request) then req_id request else JStr ''unknown''),
            result = None,
            error = Some
              \<lparr>code = - 32001,
               message = ''WeatherAPI.com API key required'',
               data = Some (JObj
                 [(''hint'',
                     JStr (''Include your API key in the Authorization header: ''
                           @ [CHR 0x22] @ ''Bearer your-api-key'' @ [CHR 0x22])),
                  (''signup'',
                     JStr ''Get a free API key at https://www.weatherapi.com/signup.aspx'')])\<rparr>\<rparr>,
      [])"
proof -
  from assms(3) obtain h where "map_of allTools key = Some h"
    using registered_handler by blast
  with assms(2,4) have "tools_call P request apiKey = (Inr (api_key_required request), [])"
    by (simp add: tools_call_registered)
  with assms(1) show ?thesis
    by (simp add: handle_tools_call api_key_required_def createErrorResponse_def
        UNAUTHORIZED_def dquote_def)
qed

theorem missing_key_known_tool_witness:
  "req_method (call_request (JNum 7) (JStr ''getCurrentWeather'') (JObj [(''location'', JStr ''London'')])) = ''tools/call''
   \<and> ''getCurrentWeather'' \<in> fst ` set allTools
   \<and> no_key None
   \<and> handleMCPRequest london_runtime
         (call_request (JNum 7) (JStr ''getCurrentWeather'') (JObj [(''location'', JStr ''London'')]))
         None =
       (Inr \<lparr>jsonrpc = ''2.0'', res_id = JNum 7, result = None,
              error = Some
                \<lparr>code = - 32001,
                 message = ''WeatherAPI.com API key required'',
                 data = Some (JObj
                   [(''hint'',
                       JStr (''Include your API key in the Authorization header: ''
                             @ [CHR 0x22] @ ''Bearer your-api-key'' @ [CHR 0x22])),
                    (''signup'',
                       JStr ''Get a free API key at https://www.weatherapi.com/signup.aspx'')])\<rparr>\<rparr>,
        [])"
proof -
  let ?request = "call_request (JNum 7) (JStr ''getCurrentWeather'') (JObj [(''location'', JStr ''London'')])"
  have 1: "req_method ?request = ''tools/call''"
    by (simp add: call_request_def)
  have 2: "ToString london_runtime (own_prop (call_params ?request) ''name'') = Inr ''getCurrentWeather''"
    by (simp add: call_request_def call_params_def own_prop_def)
  have 3: "''getCurrentWeather'' \<in> fst ` set allTools"
    by (simp add: allTools_def)
  have 4: "no_key None"
    by (simp add: no_key_def)
  from missing_key_known_tool [OF 1 2 3 4] 1 3 4 show ?thesis
    by (simp add: call_request_def)
qed

text \<open>
  Without a credential, the unknown tool name \<^verbatim>\<open>nope\<close> is answered with -32601, not with
  -32001.
\<close>

theorem missing_key_unknown_tool_counterexample:
  "handleMCPRequest london_runtime (call_request (JNum 7) (JStr ''nope'') JUndefined) None =
     (Inr \<lparr>jsonrpc = ''2.0'', res_id = JNum 7, result = None,
            error = Some
              \<lparr>code = - 32601,
               message = ''Tool '' @ [CHR 0x22] @ ''nope'' @ [CHR 0x22] @ '' not found'',
               data = Some (JObj
                 [(''availableTools'',
                     JArr [JStr ''getCurrentWeather'', JStr ''getWeatherForecast'',
                           JStr ''searchLocations''])])\<rparr>\<rparr>,
      [])
   \<and> (- 32601 :: int) \<noteq> - 32001"
  by (simp add: handleMCPRequest_def dispatch_def tools_call_def call_request_def
      call_params_def own_prop_def lookup_allTools_def allTools_def Object_prototype_def
      createErrorResponse_def METHOD_NOT_FOUND_def dquote_def)

subsection \<open>Upstream status to JSON-RPC code\<close>

text \<open>
  C2. The mapping from the status of an upstream error to a JSON-RPC code is a total
  function: 400 gives -32602, 401 gives -32001, 403 gives -32002, 404 gives -32003, 429
  gives -32004 and every other status gives -32603; the response that the dispatcher
  builds from a thrown upstream error carries that code.
\<close>

theorem upstream_status_code:
  "code (mapWeatherAPIErrorToJSONRPC e) =
     (if status e = 400 then - 32602
      else if status e = 401 then - 32001
      else if status e = 403 then - 32002
      else if status e = 404 then - 32003
      else if status e = 429 then - 32004
      else - 32603)
   \<and> map_option code (error (tool_call_failed P request (Upstream e))) =
       Some (code (mapWeatherAPIErrorToJSONRPC e))"
  by (simp add: mapWeatherAPIErrorToJSONRPC_def tool_call_failed_def createErrorResponse_def
      INVALID_PARAMS_def UNAUTHORIZED_def FORBIDDEN_def NOT_FOUND_def RATE_LIMITED_def
      INTERNAL_ERROR_def Let_def)

subsection \<open>Forecast days\<close>



subsection \<open>Unknown tools\<close>

text \<open>
  A name that is neither in the tool table nor a member of \<^verbatim>\<open>Object.prototype\<close> is
  answered with -32601 and the three tool names.
\<close>

lemma unknown_tool_not_found:
  assumes "req_method request = ''tools/call''"
    and "ToString P (own_prop (call_params request) ''name'') = Inr key"
    and "key \<notin> fst ` set allTools"
    and "key \<notin> set Object_prototype"
  shows "handleMCPRequest P request apiKey =
     (Inr \<lparr>jsonrpc = ''2.0'',
            res_id = (if truthy (req_id request) then req_id request else JStr ''unknown''),
            result = None,
            error = Some
              \<lparr>code = - 32601,
               message = ''Tool '' @ [CHR 0x22] @ key @ [CHR 0x22] @ '' not found'',
               data = Some (JObj
                 [(''availableTools'',
                     JArr [JStr ''getCurrentWeather'', JStr ''getWeatherForecast'',
                           JStr ''searchLocations''])])\<rparr>\<rparr>,
      [])"
proof -
  from assms(3) have "map_of allTools key = None"
    by (simp add: map_of_eq_None_iff)
  with assms(4) have "lookup_allTools key = None"
    by (simp add: lookup_allTools_def)
  with assms(2) have "tools_call P request apiKey =
      (Inr (createErrorResponse (req_id request) METHOD_NOT_FOUND
              (''Tool '' @ dquote @ key @ dquote @ '' not found'')
              (JObj [(''availableTools'', JArr (map (\<lambda>(k, h). JStr k) allTools))])),
       [])"
    by (simp add: tools_call_def)
  with assms(1) show ?thesis
    by (simp add: handle_tools_call createErrorResponse_def METHOD_NOT_FOUND_def dquote_def
        allTools_def)
qed

text \<open>
  C4. The claim is that every \<^verbatim>\<open>tools/call\<close> naming a tool outside the table gets the
  error -32601 with the list of the three tools. The lookup \<^verbatim>\<open>allTools[name]\<close> also finds
  inherited members: \<^verbatim>\<open>toString\<close> is not in the table, yet with a credential it is
  called as the tool and its value returned as a result, and without a credential the
  answer is -32001.
\<close>

theorem inherited_member_called_as_tool:
  "''toString'' \<notin> fst ` set allTools
   \<and> handleMCPRequest P (call_request (JNum 1) (JStr ''toString'') JUndefined) (Some ''key'') =
       (Inr \<lparr>jsonrpc = ''2.0'', res_id = JNum 1,
              result = Some (JStr ''[object Undefined]''), error = None\<rparr>,
        [])
   \<and> map_option code
        (error (projr (fst (handleMCPRequest P
           (call_request (JNum 1) (JStr ''toString'') JUndefined) None)))) = Some (- 32001)"
  by (simp add: handleMCPRequest_def dispatch_def tools_call_def call_request_def
      call_params_def own_prop_def lookup_allTools_def allTools_def Object_prototype_def
      call_member_def call_inherited_def no_key_def api_key_required_def
      createErrorResponse_def UNAUTHORIZED_def)

subsection \<open>Unknown methods\<close>

text \<open>
  C5. A request whose method is none of \<^verbatim>\<open>initialize\<close>, \<^verbatim>\<open>tools/list\<close> and
  \<^verbatim>\<open>tools/call\<close> is answered with the error -32601 whose data lists exactly these three
  methods.
\<close>

theorem unknown_method_not_found:
  assumes "req_method request \<noteq> ''initialize''"
    and "req_method request \<noteq> ''tools/list''"
    and "req_method request \<noteq> ''tools/call''"
  shows "handleMCPRequest P request apiKey =
     (Inr \<lparr>jsonrpc = ''2.0'',
            res_id = (if truthy (req_id request) then req_id request else JStr ''unknown''),
            result = None,
            error = Some
              \<lparr>code = - 32601,
               message = ''Method '' @ [CHR 0x22] @ req_method request @ [CHR 0x22] @ '' not found'',
               data = Some (JObj
                 [(''availableMethods'',
                     JArr [JStr ''initialize'', JStr ''tools/list'', JStr ''tools/call''])])\<rparr>\<rparr>,
      [])"
  using assms
  by (simp add: handleMCPRequest_def dispatch_def createErrorResponse_def METHOD_NOT_FOUND_def
      dquote_def)

theorem unknown_method_not_found_witness:
  "req_method \<lparr>req_jsonrpc = ''2.0'', req_id = JStr ''a'', req_method = ''ping'',
                req_params = JUndefined\<rparr> \<noteq> ''initialize''
   \<and> handleMCPRequest london_runtime
         \<lparr>req_jsonrpc = ''2.0'', req_id = JStr ''a'', req_method = ''ping'',
          req_params = JUndefined\<rparr> (Some ''key'') =
       (Inr \<lparr>jsonrpc = ''2.0'', res_id = JStr ''a'', result = None,
              error = Some
                \<lparr>code = - 32601,
                 message = ''Method '' @ [CHR 0x22] @ ''ping'' @ [CHR 0x22] @ '' not found'',
                 data = Some (JObj
                   [(''availableMethods'',
                       JArr [JStr ''initialize'', JStr ''tools/list'', JStr ''tools/call''])])\<rparr>\<rparr>,
        [])"
  using unknown_method_not_found
    [of "\<lparr>req_jsonrpc = ''2.0'', req_id = JStr ''a'', req_method = ''ping'',
          req_params = JUndefined\<rparr>" london_runtime "Some ''key''"]
  by simp

subsection \<open>Current weather in London\<close>

text \<open>
  C6. A \<^verbatim>\<open>tools/call\<close> of \<^verbatim>\<open>getCurrentWeather\<close> for London with a credential, the provider
  answering with the London payload: the result has two text entries, first the summary
  line (the degree sign is the two bytes C2 B0), then the serialized payload; one request
  went upstream.
\<close>

theorem current_weather_london:
  assumes "req_method request = ''tools/call''"
    and "req_params request =
           JObj [(''name'', JStr ''getCurrentWeather''),
                 (''arguments'', JObj [(''location'', JStr ''London'')])]"
    and "k \<noteq> []"
    and "fetch P \<lparr>url = ''https://api.weatherapi.com/v1/current.json'',
                  searchParams = [(''key'', k), (''q'', ''London'')]\<rparr> = Responded response"
    and "ok response"
    and "JSON_parse P (body_text response) = Some london_payload"
  shows "handleMCPRequest P request (Some k) =
     (Inr \<lparr>jsonrpc = ''2.0'', res_id = req_id request,
            result = Some (JObj
              [(''content'', JArr
                 [JObj [(''type'', JStr ''text''),
                        (''text'',
                           JStr (''Current weather in London, UK: Sunny, 20''
                                 @ [CHR 0xC2, CHR 0xB0] @ ''C (68'' @ [CHR 0xC2, CHR 0xB0]
                                 @ ''F). Feels like 19'' @ [CHR 0xC2, CHR 0xB0]
                                 @ ''C. Humidity: 50%. Wind: 10 km/h N.''))],
                  JObj [(''type'', JStr ''text''),
                        (''text'', JStr (JSON_stringify P london_payload))]])]),
            error = None\<rparr>,
      [\<lparr>url = ''https://api.weatherapi.com/v1/current.json'',
        searchParams = [(''key'', k), (''q'', ''London'')]\<rparr>])"
proof -
  have data: "getCurrentWeatherData P k (JObj [(''location'', JStr ''London'')]) =
      (Inr london_payload,
       [\<lparr>url = ''https://api.weatherapi.com/v1/current.json'',
         searchParams = [(''key'', k), (''q'', ''London'')]\<rparr>])"
    using assms(4-6)
    by (simp add: getCurrentWeatherData_def callWeatherAPI_def own_prop_def call_toString_def
        bindE_def WEATHER_API_BASE_def)
  have tool: "getCurrentWeather P k (JObj [(''location'', JStr ''London'')]) =
      (Inr (tool_result P
              (''Current weather in London, UK: Sunny, 20'' @ [CHR 0xC2, CHR 0xB0] @ ''C (68''
               @ [CHR 0xC2, CHR 0xB0] @ ''F). Feels like 19'' @ [CHR 0xC2, CHR 0xB0]
               @ ''C. Humidity: 50%. Wind: 10 km/h N.'') london_payload),
       [\<lparr>url = ''https://api.weatherapi.com/v1/current.json'',
         searchParams = [(''key'', k), (''q'', ''London'')]\<rparr>])"
    by (simp add: getCurrentWeather_def london_validated data london_summary bindE_def)
  have name: "ToString P (own_prop (call_params request) ''name'') = Inr ''getCurrentWeather''"
    and args: "own_prop (call_params request) ''arguments'' = JObj [(''location'', JStr ''London'')]"
    using assms(2) by (simp_all add: call_params_def own_prop_def)
  have "map_of allTools ''getCurrentWeather'' = Some getCurrentWeather"
    by (simp add: allTools_def)
  with name have "tools_call P request (Some k) =
      (Inr \<lparr>jsonrpc = ''2.0'', res_id = req_id request,
             result = Some (tool_result P
               (''Current weather in London, UK: Sunny, 20'' @ [CHR 0xC2, CHR 0xB0] @ ''C (68''
                @ [CHR 0xC2, CHR 0xB0] @ ''F). Feels like 19'' @ [CHR 0xC2, CHR 0xB0]
                @ ''C. Humidity: 50%. Wind: 10 km/h N.'') london_payload),
             error = None\<rparr>,
       [\<lparr>url = ''https://api.weatherapi.com/v1/current.json'',
         searchParams = [(''key'', k), (''q'', ''London'')]\<rparr>])"
    using assms(3) by (simp add: tools_call_registered no_key_def args tool)
  with assms(1) show ?thesis
    by (simp add: handle_tools_call tool_result_def text_entry_def)
qed

theorem current_weather_london_witness:
  "''key'' \<noteq> []
   \<and> fetch london_runtime
        \<lparr>url = ''https://api.weatherapi.com/v1/current.json'',
         searchParams = [(''key'', ''key''), (''q'', ''London'')]\<rparr> =
       Responded \<lparr>http_status = 200, http_statusText = ''OK'', body_text = ''{}''\<rparr>
   \<and> ok \<lparr>http_status = 200, http_statusText = ''OK'', body_text = ''{}''\<rparr>
   \<and> JSON_parse london_runtime ''{}'' = Some london_payload
   \<and> handleMCPRequest london_runtime
         (call_request (JNum 1) (JStr ''getCurrentWeather'') (JObj [(''location'', JStr ''London'')]))
         (Some ''key'') =
       (Inr \<lparr>jsonrpc = ''2.0'', res_id = JNum 1,
              result = Some (JObj
                [(''content'', JArr
                   [JObj [(''type'', JStr ''text''),
                          (''text'',
                             JStr (''Current weather in London, UK: Sunny, 20''
                                   @ [CHR 0xC2, CHR 0xB0] @ ''C (68'' @ [CHR 0xC2, CHR 0xB0]
                                   @ ''F). Feels like 19'' @ [CHR 0xC2, CHR 0xB0]
                                   @ ''C. Humidity: 50%. Wind: 10 km/h N.''))],
                    JObj [(''type'', JStr ''text''), (''text'', JStr ''{}'')]])]),
              error = None\<rparr>,
        [\<lparr>url = ''https://api.weatherapi.com/v1/current.json'',
          searchParams = [(''key'', ''key''), (''q'', ''London'')]\<rparr>])"
proof -
  let ?request = "call_request (JNum 1) (JStr ''getCurrentWeather'') (JObj [(''location'', JStr ''London'')])"
  let ?response = "\<lparr>http_status = 200, http_statusText = ''OK'', body_text = ''{}''\<rparr>"
  have 1: "req_method ?request = ''tools/call''"
    and 2: "req_params ?request =
           JObj [(''name'', JStr ''getCurrentWeather''),
                 (''arguments'', JObj [(''location'', JStr ''London'')])]"
    by (simp_all add: call_request_def)
  have 3: "''key'' \<noteq> []"
    by simp
  have 4: "fetch london_runtime
        \<lparr>url = ''https://api.weatherapi.com/v1/current.json'',
         searchParams = [(''key'', ''key''), (''q'', ''London'')]\<rparr> = Responded ?response"
    by (simp add: london_runtime_def canned_def)
  have 5: "ok ?response"
    by (simp add: ok_def)
  have 6: "JSON_parse london_runtime (body_text ?response) = Some london_payload"
    by (simp add: london_runtime_def canned_def)
  have 7: "JSON_stringify london_runtime london_payload = ''{}''"
    by (simp add: london_runtime_def canned_def)
  from current_weather_london [OF 1 2 3 4 5 6] 3 4 5 6 7 show ?thesis
    by (simp add: call_request_def)
qed

subsection \<open>One response, with a result or an error\<close>


subsection \<open>Upstream failures\<close>

text \<open>
  C8, as amended. When the provider answers with a status outside 200..299, the client
  throws the upstream error with that status and status text, with the parsed body (or
  the object holding the raw text under \<^verbatim>\<open>message\<close> when the body is not JSON), and with
  the message \<^verbatim>\<open>WeatherAPI request failed: \<close> followed by the raw text. The claim as
  stated has the message start with \<^verbatim>\<open>request failed: \<close> (see the counterexample).
\<close>

theorem non_2xx_upstream_error:
  assumes "set_params P params [(''key'', apiKey)] = Inr q"
    and "fetch P \<lparr>url = WEATHER_API_BASE @ endpoint, searchParams = q\<rparr> = Responded response"
    and "\<not> ok response"
  shows "callWeatherAPI P endpoint apiKey params =
     (Inl (Upstream (WeatherAPIError (http_status response) (http_statusText response)
             (case JSON_parse P (body_text response) of
                Some parsed \<Rightarrow> parsed
              | None \<Rightarrow> JObj [(''message'', JStr (body_text response))])
             (''WeatherAPI request failed: '' @ body_text response))),
      [\<lparr>url = WEATHER_API_BASE @ endpoint, searchParams = q\<rparr>])"
  using assms by (simp add: callWeatherAPI_def new_WeatherAPIError_def Let_def)

theorem non_2xx_upstream_error_witness:
  "set_params failing_runtime [(''q'', JStr ''London'')] [(''key'', ''key'')] =
     Inr [(''key'', ''key''), (''q'', ''London'')]
   \<and> fetch failing_runtime
        \<lparr>url = WEATHER_API_BASE @ ''/current.json'',
         searchParams = [(''key'', ''key''), (''q'', ''London'')]\<rparr> =
       Responded \<lparr>http_status = 500, http_statusText = ''Internal Server Error'',
                  body_text = ''oops''\<rparr>
   \<and> \<not> ok \<lparr>http_status = 500, http_statusText = ''Internal Server Error'',
              body_text = ''oops''\<rparr>
   \<and> callWeatherAPI failing_runtime ''/current.json'' ''key'' [(''q'', JStr ''London'')] =
       (Inl (Upstream (WeatherAPIError 500 ''Internal Server Error''
               (JObj [(''message'', JStr ''oops'')])
               ''WeatherAPI request failed: oops'')),
        [\<lparr>url = WEATHER_API_BASE @ ''/current.json'',
          searchParams = [(''key'', ''key''), (''q'', ''London'')]\<rparr>])"
proof -
  let ?response = "\<lparr>http_status = 500, http_statusText = ''Internal Server Error'',
                    body_text = ''oops''\<rparr>"
  have 1: "set_params failing_runtime [(''q'', JStr ''London'')] [(''key'', ''key'')] =
     Inr [(''key'', ''key''), (''q'', ''London'')]"
    by (simp add: call_toString_def bindE_def)
  have 2: "fetch failing_runtime
        \<lparr>url = WEATHER_API_BASE @ ''/current.json'',
         searchParams = [(''key'', ''key''), (''q'', ''London'')]\<rparr> = Responded ?response"
    by (simp add: failing_runtime_def canned_def)
  have 3: "\<not> ok ?response"
    by (simp add: ok_def)
  have 4: "JSON_parse failing_runtime ''oops'' = None"
    by (simp add: failing_runtime_def canned_def)
  from non_2xx_upstream_error [OF 1 2 3] 1 2 3 4 show ?thesis
    by simp
qed

text \<open>
  For the body \<^verbatim>\<open>oops\<close> the message is \<^verbatim>\<open>WeatherAPI request failed: oops\<close>, which is not
  \<^verbatim>\<open>request failed: oops\<close>.
\<close>

theorem upstream_error_message_counterexample:
  "callWeatherAPI failing_runtime ''/current.json'' ''key'' [(''q'', JStr ''London'')] =
     (Inl (Upstream (WeatherAPIError 500 ''Internal Server Error''
             (JObj [(''message'', JStr ''oops'')])
             ''WeatherAPI request failed: oops'')),
      [\<lparr>url = ''https://api.weatherapi.com/v1/current.json'',
        searchParams = [(''key'', ''key''), (''q'', ''London'')]\<rparr>])
   \<and> ''WeatherAPI request failed: oops'' \<noteq> ''request failed: '' @ ''oops''"
  by (simp add: callWeatherAPI_def new_WeatherAPIError_def call_toString_def bindE_def
      failing_runtime_def canned_def ok_def WEATHER_API_BASE_def Let_def)

subsection \<open>The id of a response\<close>

text \<open>
  C9. The dispatcher always answers; an error response carries the id of the request
  when that is truthy and the string \<^verbatim>\<open>unknown\<close> otherwise, a success response carries
  the id of the request unchanged. Absent, \<^verbatim>\<open>null\<close>, 0 and the empty string are falsy.
\<close>

theorem error_id_unknown_success_id_echoed:
  "(\<exists>r. fst (handleMCPRequest P request apiKey) = Inr r \<and>
        res_id r =
          (if error r = None then req_id request
           else if truthy (req_id request) then req_id request else JStr ''unknown''))
   \<and> \<not> truthy JUndefined \<and> \<not> truthy JNull \<and> \<not> truthy (JNum 0) \<and> \<not> truthy (JStr [])
   \<and> truthy (JNum 7) \<and> truthy (JStr ''abc'')"
proof (cases "dispatch P request apiKey")
  case (Pair outcome sent)
  show ?thesis
  proof (cases outcome)
    case (Inl e)
    with Pair show ?thesis
      by (simp add: handleMCPRequest_def createErrorResponse_def)
  next
    case (Inr r)
    with Pair dispatch_id [of P request apiKey r sent] show ?thesis
      by (simp add: handleMCPRequest_def)
  qed
qed

subsection \<open>Invalid arguments\<close>

text \<open>
  In a \<^verbatim>\<open>tools/call\<close> that names a tool of the table and comes with a credential,
  arguments that the validation of that tool rejects are answered with the error -32602
  and nothing is sent upstream.
\<close>

lemma invalid_arguments_answered:
  assumes "req_method request = ''tools/call''"
    and "ToString P (own_prop (call_params request) ''name'') = Inr key"
    and "key \<in> fst ` set allTools"
    and "\<not> no_key apiKey"
    and "validate_arguments key (own_prop (call_params request) ''arguments'') = Inl e"
  shows "\<exists>r. handleMCPRequest P request apiKey = (Inr r, []) \<and>
             result r = None \<and> map_option code (error r) = Some (- 32602)"
proof -
  from assms(5) have "\<exists>issues. e = ZodError issues"
    by (auto simp: validate_arguments_def dest: zod_parse_throws_ZodError split: if_splits)
  then obtain issues where "e = ZodError issues" ..
  with assms have "handleMCPRequest P request apiKey =
      (Inr \<lparr>jsonrpc = ''2.0'',
             res_id = (if truthy (req_id request) then req_id request else JStr ''unknown''),
             result = None,
             error = Some
               \<lparr>code = - 32602,
                message = ''Invalid input parameters'',
                data = Some (JObj
                  [(''validationErrors'', JUndefined),
                   (''hint'', JStr ''Check the tool's input schema for required parameters'')])\<rparr>\<rparr>,
       [])"
    by (intro tool_call_validation_failure) simp_all
  then show ?thesis by simp
qed

text \<open>
  C10. The claim is that such an answer carries \<^verbatim>\<open>data.validationErrors\<close> and a hint. The
  \<^verbatim>\<open>catch\<close> fills \<^verbatim>\<open>validationErrors\<close> from \<^verbatim>\<open>error.errors\<close>, which the validation error does
  not have: for \<^verbatim>\<open>searchLocations\<close> with the number 7 as \<^verbatim>\<open>query\<close> the answer is -32602
  with the hint, and the property \<^verbatim>\<open>validationErrors\<close> of its data is undefined.
\<close>

theorem validation_errors_not_attached:
  "handleMCPRequest P
     (call_request (JStr ''r1'') (JStr ''searchLocations'') (JObj [(''query'', JNum 7)]))
     (Some ''key'') =
     (Inr \<lparr>jsonrpc = ''2.0'', res_id = JStr ''r1'', result = None,
            error = Some
              \<lparr>code = - 32602,
               message = ''Invalid input parameters'',
               data = Some (JObj
                 [(''validationErrors'', JUndefined),
                  (''hint'', JStr ''Check the tool's input schema for required parameters'')])\<rparr>\<rparr>,
      [])
   \<and> own_prop
         (JObj [(''validationErrors'', JUndefined),
                (''hint'', JStr ''Check the tool's input schema for required parameters'')])
         ''validationErrors'' = JUndefined"
  by (simp add: handleMCPRequest_def dispatch_def tools_call_def call_request_def
      call_params_def own_prop_def lookup_allTools_def allTools_def call_member_def no_key_def
      searchLocations_def zod_parse_def searchLocationsSchema_def tool_call_failed_def
      error_errors_def createErrorResponse_def INVALID_PARAMS_def)

end
